theory Spec2Isabelle
  imports Main "HOL-Library.Word"
begin

section \<open>Strings and paths\<close>

text \<open>
  A Go string is a sequence of bytes, here a \<open>string\<close> (a list of 8-bit characters).
  The helpers of this section are the library functions the authorizer calls; they are
  written after the Go standard library (package \<open>path\<close>, \<open>strings\<close>), byte by byte.
\<close>

definition slash :: char where
  "slash = CHR ''/''"

definition dot :: char where
  "dot = CHR ''.''"

text \<open>
  \<open>path.Clean\<close> writes into a buffer \<open>out\<close> while reading the path. On a \<open>..\<close> element it
  steps the write index back to the last slash, but never below \<open>dotdot\<close>:
  \<^verbatim>\<open>out.w--; for out.w > dotdot && out.index(out.w) != '/' { out.w-- }\<close>.
\<close>

fun backtrack :: "string \<Rightarrow> nat \<Rightarrow> nat \<Rightarrow> nat" where
  "backtrack out dotdot w =
     (if w > dotdot \<and> out ! w \<noteq> slash then backtrack out dotdot (w - 1) else w)"

declare backtrack.simps [simp del]

text \<open>\<open>path[r] == '.' && (r+1 == n || path[r+1] == '/')\<close>, with \<open>c # rest\<close> the unread path.\<close>

definition is_dot_elem :: "char \<Rightarrow> string \<Rightarrow> bool" where
  "is_dot_elem c rest = (c = dot \<and> (case rest of [] \<Rightarrow> True | d # _ \<Rightarrow> d = slash))"

text \<open>\<open>path[r] == '.' && path[r+1] == '.' && (r+2 == n || path[r+2] == '/')\<close>.\<close>

definition is_dotdot_elem :: "char \<Rightarrow> string \<Rightarrow> bool" where
  "is_dotdot_elem c rest =
     (c = dot \<and> (case rest of [] \<Rightarrow> False
                | d # rest' \<Rightarrow> d = dot \<and> (case rest' of [] \<Rightarrow> True | e # _ \<Rightarrow> e = slash)))"

text \<open>
  The main loop of \<open>path.Clean\<close>: the first argument is \<open>rooted\<close>, the second the part of
  the path not yet read (\<open>path[r:]\<close>), the third the buffer written so far (its length is
  \<open>out.w\<close>), the fourth \<open>dotdot\<close>.
\<close>

function clean_loop :: "bool \<Rightarrow> string \<Rightarrow> string \<Rightarrow> nat \<Rightarrow> string" where
  "clean_loop rooted [] out dotdot = out"
| "clean_loop rooted (c # rest) out dotdot =
     (if c = slash then clean_loop rooted rest out dotdot
      else if is_dot_elem c rest then clean_loop rooted rest out dotdot
      else if is_dotdot_elem c rest then
        (if length out > dotdot then
           clean_loop rooted (tl rest) (take (backtrack out dotdot (length out - 1)) out) dotdot
         else if \<not> rooted then
           clean_loop rooted (tl rest) ((if length out > 0 then out @ [slash] else out) @ [dot, dot])
             (length ((if length out > 0 then out @ [slash] else out) @ [dot, dot]))
         else clean_loop rooted (tl rest) out dotdot)
      else
        clean_loop rooted (dropWhile (\<lambda>x. x \<noteq> slash) rest)
          ((if (rooted \<and> length out \<noteq> 1) \<or> (\<not> rooted \<and> length out \<noteq> 0)
            then out @ [slash] else out) @ c # takeWhile (\<lambda>x. x \<noteq> slash) rest)
          dotdot)"
  by pat_completeness auto
termination
  by (relation "measure (\<lambda>(rooted, p, out, dotdot). length p)")
     (auto simp: less_Suc_eq_le length_dropWhile_le)

declare clean_loop.simps(2) [simp del]

definition Clean :: "string \<Rightarrow> string" where
  "Clean p =
     (case p of
        [] \<Rightarrow> ''.''
      | c # rest \<Rightarrow>
          (let rooted = (c = slash);
               out = (if rooted then clean_loop True rest [slash] 1
                      else clean_loop False p [] 0)
           in if out = [] then ''.'' else out))"

text \<open>
  \<open>path.Join\<close>: empty elements are skipped, the others are joined with a slash and the
  result is cleaned; when every element is empty the result is the empty string.
\<close>

fun join_buf :: "string \<Rightarrow> string list \<Rightarrow> string" where
  "join_buf buf [] = buf"
| "join_buf buf (e # es) =
     join_buf (if buf \<noteq> [] \<or> e \<noteq> []
               then (if buf \<noteq> [] then buf @ [slash] else buf) @ e
               else buf) es"

definition Join :: "string list \<Rightarrow> string" where
  "Join elem = (if sum_list (map length elem) = 0 then [] else Clean (join_buf [] elem))"

text \<open>
  \<open>strings.ToLower\<close> on bytes: \<open>A\<close>..\<open>Z\<close> are moved to \<open>a\<close>..\<open>z\<close>, every other byte is
  kept. (Go also lowers letters outside ASCII; no such letter becomes a letter of the
  words this program compares with, \<open>allowed\<close> and \<open>urn:uuid:\<close>, without changing the
  length of the string, so those comparisons are not affected; for the user names of the
  skip list the model is exact on ASCII names.)
\<close>

definition lower_byte :: "char \<Rightarrow> char" where
  "lower_byte c =
     (if (65::nat) \<le> of_char c \<and> of_char c \<le> (90::nat) then char_of (of_char c + (32::nat))
      else c)"

definition ToLower :: "string \<Rightarrow> string" where
  "ToLower s = map lower_byte s"

section \<open>Requests\<close>

text \<open>The fields of the Kubernetes SubjectAccessReviewSpec; a nil pointer is \<open>None\<close>.\<close>

record ResourceAttributes =
  Namespace :: string
  Verb :: string
  Group :: string
  Version :: string
  Resource :: string
  Subresource :: string
  Name :: string

record NonResourceAttributes =
  Path :: string
  NonResourceVerb :: string

record SubjectAccessReviewSpec =
  ResourceAttributes :: "ResourceAttributes option"
  NonResourceAttributes :: "NonResourceAttributes option"
  User :: string
  Groups :: "string list"
  Extra :: "string \<rightharpoonup> string list"
  UID :: string

definition namespaces :: string where
  "namespaces = ''namespaces''"

definition getScope :: "string \<Rightarrow> ResourceAttributes option \<Rightarrow> string" where
  "getScope resourceId attr =
     (case attr of
        None \<Rightarrow> resourceId
      | Some a \<Rightarrow>
          if Namespace a \<noteq> [] then Join [resourceId, namespaces, Namespace a]
          else resourceId)"

definition getActionName :: "string \<Rightarrow> string" where
  "getActionName verb =
     (if verb = ''get'' then ''read''
      else if verb = ''list'' then ''read''
      else if verb = ''watch'' then ''read''
      else if verb = ''bind'' then ''bind/action''
      else if verb = ''escalate'' then ''escalate/action''
      else if verb = ''use'' then ''use/action''
      else if verb = ''impersonate'' then ''impersonate/action''
      else if verb = ''create'' then ''write''
      else if verb = ''patch'' then ''write''
      else if verb = ''update'' then ''write''
      else if verb = ''delete'' then ''delete''
      else if verb = ''deletecollection'' then ''delete''
      else [])"

definition getResultCacheKey :: "SubjectAccessReviewSpec \<Rightarrow> string" where
  "getResultCacheKey subRevReq =
     (case ResourceAttributes subRevReq of
        Some ra \<Rightarrow>
          (let k1 = (if Namespace ra \<noteq> [] then Join [User subRevReq, Namespace ra]
                     else User subRevReq);
               k2 = (if Group ra \<noteq> [] then Join [k1, Group ra] else k1)
           in Join [k2, Resource ra, getActionName (Verb ra)])
      | None \<Rightarrow>
          (case NonResourceAttributes subRevReq of
             Some nra \<Rightarrow> Join [User subRevReq, Path nra, getActionName (NonResourceVerb nra)]
           | None \<Rightarrow> User subRevReq))"

section \<open>Object ids and security groups\<close>

text \<open>
  \<open>isValidUUID\<close> asks \<open>uuid.Parse\<close> (github.com/google/uuid, v1.1.1 in go.mod) whether
  it accepts the string. \<open>Parse\<close> takes the 36-byte form, the same after \<open>urn:uuid:\<close>,
  the same between two bytes it does not look at, and 32 hexadecimal digits.
\<close>

definition is_hex :: "char \<Rightarrow> bool" where
  "is_hex c = (c \<in> set ''0123456789abcdefABCDEF'')"

text \<open>\<open>xtob(s[x], s[x+1])\<close> succeeds when both bytes are hexadecimal digits.\<close>

definition xtob_ok :: "string \<Rightarrow> nat \<Rightarrow> bool" where
  "xtob_ok s x = (is_hex (s ! x) \<and> is_hex (s ! (x + 1)))"

text \<open>The checks on \<open>xxxxxxxx-xxxx-xxxx-xxxx-xxxxxxxxxxxx\<close>; \<open>s\<close> has at least 36 bytes.\<close>

definition uuid_body_ok :: "string \<Rightarrow> bool" where
  "uuid_body_ok s =
     (if s ! 8 \<noteq> CHR ''-'' \<or> s ! 13 \<noteq> CHR ''-'' \<or> s ! 18 \<noteq> CHR ''-'' \<or> s ! 23 \<noteq> CHR ''-''
      then False
      else list_all (xtob_ok s) [0, 2, 4, 6, 9, 11, 14, 16, 19, 21, 24, 26, 28, 30, 32, 34])"

definition uuid_Parse_ok :: "string \<Rightarrow> bool" where
  "uuid_Parse_ok s =
     (if length s = 36 then uuid_body_ok s
      else if length s = 36 + 9 then
        (if ToLower (take 9 s) \<noteq> ''urn:uuid:'' then False else uuid_body_ok (drop 9 s))
      else if length s = 36 + 2 then uuid_body_ok (drop 1 s)
      else if length s = 32 then list_all (\<lambda>i. xtob_ok s (i * 2)) [0 ..< 16]
      else False)"

definition isValidUUID :: "string \<Rightarrow> bool" where
  "isValidUUID u = uuid_Parse_ok u"

definition getValidSecurityGroups :: "string list \<Rightarrow> string list" where
  "getValidSecurityGroups groups = filter isValidUUID groups"

text \<open>
  \<open>ExtraValue.String\<close> prints the list of strings with \<open>%v\<close>: the elements separated by
  one space, between square brackets.
\<close>

fun space_joined :: "string list \<Rightarrow> string" where
  "space_joined [] = []"
| "space_joined [x] = x"
| "space_joined (x # y # ys) = x @ '' '' @ space_joined (y # ys)"

definition ExtraValue_String :: "string list \<Rightarrow> string" where
  "ExtraValue_String t = ''['' @ space_joined t @ '']''"

section \<open>The check-access request\<close>

record SubjectInfoAttributes =
  ObjectId :: string
  SubjectGroups :: "string list"
  RetrieveGroupMemberships :: bool

record AuthorizationActionInfo =
  ActionId :: string
  IsDataAction :: bool

record CheckAccessRequest =
  Subject :: SubjectInfoAttributes
  Actions :: "AuthorizationActionInfo list"
  ResourceId :: string

text \<open>
  A Go error value: \<open>errors.New\<close>, \<open>errors.Wrap\<close>, the \<open>errors.Errorf\<close> of a failed
  status (path, status code, response), and an error handed back by a library or by the
  network. A failure is a returned error or a run-time panic.
\<close>

datatype error =
    ErrNew string
  | ErrWrap error string
  | ErrStatus string int string
  | ErrExternal string

datatype failure = Error error | Panic string

definition getDataAction :: "SubjectAccessReviewSpec \<Rightarrow> string \<Rightarrow> AuthorizationActionInfo" where
  "getDataAction subRevReq clusterType =
     \<lparr>ActionId =
        (case ResourceAttributes subRevReq of
           Some ra \<Rightarrow>
             Join [if Group ra \<noteq> [] then Join [clusterType, Group ra] else clusterType,
                   Resource ra, getActionName (Verb ra)]
         | None \<Rightarrow>
             (case NonResourceAttributes subRevReq of
                Some nra \<Rightarrow> Join [clusterType, Path nra, getActionName (NonResourceVerb nra)]
              | None \<Rightarrow> clusterType)),
      IsDataAction = True\<rparr>"

definition prepareCheckAccessRequestBody ::
  "SubjectAccessReviewSpec \<Rightarrow> string \<Rightarrow> string \<Rightarrow> bool \<Rightarrow> error + CheckAccessRequest" where
  "prepareCheckAccessRequestBody req clusterType resourceId retrieveGroupMemberships =
     (case Extra req ''oid'' of
        None \<Rightarrow> Inl (ErrNew ''oid info not sent from authentication module'')
      | Some oid \<Rightarrow>
          (let val = ExtraValue_String oid;
               userOid = take (length val - 1 - 1) (drop 1 val)
           in if isValidUUID userOid then
                Inr \<lparr>Subject =
                       \<lparr>ObjectId = userOid,
                        SubjectGroups =
                          (if \<not> retrieveGroupMemberships then getValidSecurityGroups (Groups req)
                           else []),
                        RetrieveGroupMemberships = retrieveGroupMemberships\<rparr>,
                     Actions = [getDataAction req clusterType],
                     ResourceId = getScope resourceId (ResourceAttributes req)\<rparr>
              else Inl (ErrNew ''oid info sent from authentication module is not valid'')))"

definition getNameSpaceScope :: "SubjectAccessReviewSpec \<Rightarrow> bool \<times> string" where
  "getNameSpaceScope req =
     (case ResourceAttributes req of
        None \<Rightarrow> (False, [])
      | Some ra \<Rightarrow>
          if Namespace ra \<noteq> [] then (True, Join [namespaces, Namespace ra]) else (False, []))"

section \<open>The check-access response\<close>

definition AccessAllowedVerdict :: string where
  "AccessAllowedVerdict = ''Access allowed''"

definition Allowed_word :: string where
  "Allowed_word = ''allowed''"

definition AccessNotAllowedVerdict :: string where
  "AccessNotAllowedVerdict =
     ''User does not have access to the resource in Azure. Update role assignment to allow access.''"

text \<open>Of a decision of the response, the program reads the disposition only.\<close>

record AuthorizationDecision =
  Decision :: string
  DecisionActionId :: string
  DecisionIsDataAction :: bool
  TimeToLiveInMs :: int

record SubjectAccessReviewStatus =
  Allowed :: bool
  Denied :: bool
  Reason :: string
  EvaluationError :: string

text \<open>
  \<open>json.Unmarshal\<close> is a parameter: it gives the decoding error or the decoded list. The
  list may be empty (the bodies \<open>[]\<close> and \<open>null\<close> decode without error); \<open>response[0]\<close>
  then panics.
\<close>

type_synonym unmarshal = "string \<Rightarrow> error + AuthorizationDecision list"

definition ConvertCheckAccessResponse ::
  "unmarshal \<Rightarrow> string \<Rightarrow> failure + SubjectAccessReviewStatus" where
  "ConvertCheckAccessResponse json_Unmarshal body =
     (case json_Unmarshal body of
        Inl err \<Rightarrow> Inl (Error (ErrWrap err ''Error in unmarshalling check access response.''))
      | Inr response \<Rightarrow>
          (case response of
             [] \<Rightarrow> Inl (Panic ''index out of range'')
           | d # _ \<Rightarrow>
               if ToLower (Decision d) = Allowed_word
               then Inr \<lparr>Allowed = True, Denied = False, Reason = AccessAllowedVerdict,
                        EvaluationError = []\<rparr>
               else Inr \<lparr>Allowed = False, Denied = True, Reason = AccessNotAllowedVerdict,
                        EvaluationError = []\<rparr>))"

section \<open>HTTP headers and numbers\<close>

definition upper_byte :: "char \<Rightarrow> char" where
  "upper_byte c =
     (if (97::nat) \<le> of_char c \<and> of_char c \<le> (122::nat) then char_of (of_char c - (32::nat))
      else c)"

text \<open>
  \<open>textproto.CanonicalMIMEHeaderKey\<close> on a key made of header-name bytes (the keys of
  this program are constants of that kind): the first letter and every letter after a
  hyphen in upper case, the others in lower case.
\<close>

fun canonical_loop :: "bool \<Rightarrow> string \<Rightarrow> string" where
  "canonical_loop upper [] = []"
| "canonical_loop upper (c # cs) =
     (let c' = (if upper then upper_byte c else lower_byte c)
      in c' # canonical_loop (c' = CHR ''-'') cs)"

definition CanonicalMIMEHeaderKey :: "string \<Rightarrow> string" where
  "CanonicalMIMEHeaderKey s = canonical_loop True s"

type_synonym Header = "string \<rightharpoonup> string list"

definition Header_Set :: "Header \<Rightarrow> string \<Rightarrow> string \<Rightarrow> Header" where
  "Header_Set h key v = h(CanonicalMIMEHeaderKey key \<mapsto> [v])"

definition Header_Get :: "Header \<Rightarrow> string \<Rightarrow> string" where
  "Header_Get h key =
     (case h (CanonicalMIMEHeaderKey key) of
        None \<Rightarrow> []
      | Some vs \<Rightarrow> (case vs of [] \<Rightarrow> [] | v # _ \<Rightarrow> v))"

text \<open>
  \<open>strconv.Atoi\<close>, value and error. The digits are read by the loop of \<open>ParseUint\<close>
  (base 10, 64 bits), which stops at the first byte that is not a digit (syntax error,
  value 0) and at the first step that leaves the range (range error, largest value
  \<open>2^64 - 1\<close>); the signed result is cut to the range of \<open>int\<close>, from \<open>-2^63\<close> to
  \<open>2^63 - 1\<close>.
\<close>

datatype num_error = ErrSyntax | ErrRange

definition is_digit :: "char \<Rightarrow> bool" where
  "is_digit c = ((48::nat) \<le> of_char c \<and> of_char c \<le> (57::nat))"

fun ParseUint_loop :: "int \<Rightarrow> string \<Rightarrow> int \<times> num_error option" where
  "ParseUint_loop n [] = (n, None)"
| "ParseUint_loop n (c # cs) =
     (if \<not> is_digit c then (0, Some ErrSyntax)
      else if n \<ge> 18446744073709551615 div 10 + 1 then (18446744073709551615, Some ErrRange)
      else if n * 10 + (of_char c - 48) > 18446744073709551615
      then (18446744073709551615, Some ErrRange)
      else ParseUint_loop (n * 10 + (of_char c - 48)) cs)"

definition ParseUint :: "string \<Rightarrow> int \<times> num_error option" where
  "ParseUint s = (if s = [] then (0, Some ErrSyntax) else ParseUint_loop 0 s)"

definition Atoi :: "string \<Rightarrow> int \<times> num_error option" where
  "Atoi s =
     (case s of
        [] \<Rightarrow> (0, Some ErrSyntax)
      | c # cs \<Rightarrow>
          (let neg = (c = CHR ''-'');
               digits = (if c = CHR ''+'' \<or> c = CHR ''-'' then cs else s);
               (un, err) = ParseUint digits
           in if err = Some ErrSyntax then (0, err)
              else if \<not> neg \<and> un \<ge> 9223372036854775808
              then (9223372036854775807, Some ErrRange)
              else if neg \<and> un > 9223372036854775808
              then (- 9223372036854775808, Some ErrRange)
              else (if neg then - un else un, None)))"

section \<open>The access-checking client\<close>

text \<open>
  Time is counted in nanoseconds: an instant (\<open>time.Time\<close>) is an integer, a
  \<open>time.Duration\<close> is a 64-bit signed integer whose arithmetic wraps around. Adding a
  duration to an instant is exact (the instants of this program are far from the ends
  of what \<open>time.Time\<close> can hold), and \<open>Before\<close> is the strict order of instants.
\<close>

type_synonym Time = int
type_synonym Duration = "64 word"

definition Second :: Duration where
  "Second = 1000000000"

definition expiryDelta :: Duration where
  "expiryDelta = 60 * Second"

definition Time_Add :: "Time \<Rightarrow> Duration \<Rightarrow> Time" where
  "Time_Add t d = t + sint d"

definition Time_Before :: "Time \<Rightarrow> Time \<Rightarrow> bool" where
  "Time_Before t u = (t < u)"

text \<open>
  Modelled from the spec: the token provider and its response are declared in package
  \<open>graph\<close>, which is not among the sources. \<open>Acquire(scope)\<close> gives an error or a
  response with the token and its life time in seconds (a Go \<open>int\<close>, 64 bits),
  \<open>Name()\<close> a name for the log.
\<close>

record AuthResponse =
  TokenType :: string
  Expires :: "64 word"
  Token :: string

record TokenProvider =
  Acquire :: "string \<Rightarrow> error + AuthResponse"
  ProviderName :: string

record URL =
  Scheme :: string
  Host :: string
  URLPath :: string
  RawQuery :: string

record Request =
  Method :: string
  RequestURL :: URL
  RequestHeader :: Header
  RequestBody :: string

text \<open>
  A response as the program reads it: the status code, the headers, and what
  \<open>ioutil.ReadAll\<close> makes of the body.
\<close>

record Response =
  StatusCode :: int
  ResponseHeader :: Header
  ResponseBody :: "error + string"

text \<open>
  The HTTP client: how it answers a request, and the calls made on it so far, oldest
  first.
\<close>

datatype client_call = Do Request | CloseIdleConnections

record Client =
  answer :: "Request \<Rightarrow> error + Response"
  calls :: "client_call list"

text \<open>
  The library functions \<open>CheckAccess\<close> calls beside the client are parameters:
  the JSON encoder of the request body, \<open>http.NewRequest\<close> (which can refuse the
  address) and the JSON decoder of the response.
\<close>

record Lib =
  json_Encode :: "CheckAccessRequest \<Rightarrow> error + string"
  http_NewRequest :: "URL \<Rightarrow> error option"
  json_Unmarshal :: unmarshal

text \<open>
  Modelled from the spec: \<open>dataStore\<close> is an \<open>authz.Store\<close>, an interface declared in
  a package that is not among the sources, with \<open>Set(key, value)\<close> returning an error
  or nothing. \<open>CheckAccess\<close> only calls \<open>Set\<close> on it and drops what \<open>Set\<close>
  returns, so the store is kept as the calls \<open>Set(key, value)\<close> made on it, oldest
  first.
\<close>

record AccessInfo =
  headers :: Header
  client :: Client
  expiresAt :: Time
  apiURL :: URL
  tokenProvider :: TokenProvider
  clusterType :: string
  azureResourceId :: string
  armCallLimit :: int
  dataStore :: "(string \<times> bool) list"
  skipCheck :: "string set"
  retrieveGroupMemberships :: bool
  skipAuthzForNonAADUsers :: bool

definition managedClusters :: string where
  "managedClusters = ''Microsoft.ContainerService/managedClusters''"

definition connectedClusters :: string where
  "connectedClusters = ''Microsoft.Kubernetes/connectedClusters''"

definition checkAccessPath :: string where
  "checkAccessPath = ''/providers/Microsoft.Authorization/checkaccess''"

definition checkAccessAPIVersion :: string where
  "checkAccessAPIVersion = ''2018-09-01-preview''"

definition remaingSubReadARMHeader :: string where
  "remaingSubReadARMHeader = ''x-ms-ratelimit-remaining-subscription-reads''"

definition newAccessInfo ::
  "TokenProvider \<Rightarrow> Client \<Rightarrow> URL \<Rightarrow> string \<Rightarrow> string \<Rightarrow> int \<Rightarrow> (string \<times> bool) list \<Rightarrow>
   string list \<Rightarrow> bool \<Rightarrow> bool \<Rightarrow> AccessInfo" where
  "newAccessInfo provider defaultClient rbacURL clsuterType resourceId limit store skipList
     retrieve skipNonAAD =
     \<lparr>headers = [''Content-Type'' \<mapsto> [''application/json'']],
      client = defaultClient,
      expiresAt = 0,
      apiURL = rbacURL,
      tokenProvider = provider,
      clusterType =
        (if clsuterType = ''aks'' then managedClusters
         else if clsuterType = ''arc'' then connectedClusters
         else []),
      azureResourceId = resourceId,
      armCallLimit = limit,
      dataStore = store,
      skipCheck = set (map ToLower skipList),
      retrieveGroupMemberships = retrieve,
      skipAuthzForNonAADUsers = skipNonAAD\<rparr>"

text \<open>\<open>RefreshToken\<close>; \<open>now\<close> is what \<open>time.Now()\<close> returns in it.\<close>

definition RefreshToken :: "Time \<Rightarrow> AccessInfo \<Rightarrow> error option \<times> AccessInfo" where
  "RefreshToken now a =
     (case Acquire (tokenProvider a) [] of
        Inl err \<Rightarrow> (Some (ErrWrap err ''failed to refresh rbac token''), a)
      | Inr resp \<Rightarrow>
          (let expIn = Expires resp * Second
           in (None,
               a\<lparr>headers := Header_Set (headers a) ''Authorization'' (''Bearer '' @ Token resp),
                 expiresAt := Time_Add now (expIn - expiryDelta)\<rparr>)))"

definition IsTokenExpired :: "Time \<Rightarrow> AccessInfo \<Rightarrow> bool" where
  "IsTokenExpired now a = (if Time_Before (expiresAt a) now then True else False)"

definition ShouldSkipAuthzCheckForNonAADUsers :: "AccessInfo \<Rightarrow> bool" where
  "ShouldSkipAuthzCheckForNonAADUsers a = skipAuthzForNonAADUsers a"

definition SkipAuthzCheck :: "AccessInfo \<Rightarrow> SubjectAccessReviewSpec \<Rightarrow> bool" where
  "SkipAuthzCheck a request =
     (if clusterType a = connectedClusters then ToLower (User request) \<in> skipCheck a
      else False)"

definition SetResultInCache :: "SubjectAccessReviewSpec \<Rightarrow> bool \<Rightarrow> AccessInfo \<Rightarrow> AccessInfo" where
  "SetResultInCache request result a =
     a\<lparr>dataStore := dataStore a @ [(getResultCacheKey request, result)]\<rparr>"

definition client_Do :: "Request \<Rightarrow> AccessInfo \<Rightarrow> (error + Response) \<times> AccessInfo" where
  "client_Do req a =
     (answer (client a) req, a\<lparr>client := (client a)\<lparr>calls := calls (client a) @ [Do req]\<rparr>\<rparr>)"

definition client_CloseIdleConnections :: "AccessInfo \<Rightarrow> AccessInfo" where
  "client_CloseIdleConnections a =
     a\<lparr>client := (client a)\<lparr>calls := calls (client a) @ [CloseIdleConnections]\<rparr>\<rparr>"

text \<open>The address of the call: the path of \<open>apiURL\<close>, the resource id, the namespace
  scope when there is one, and the check-access path; the query is the API version.\<close>

definition checkAccessURL :: "AccessInfo \<Rightarrow> SubjectAccessReviewSpec \<Rightarrow> URL" where
  "checkAccessURL a request =
     (let p1 = Join [URLPath (apiURL a), azureResourceId a];
          (exist, nameSpaceString) = getNameSpaceScope request;
          p2 = (if exist then Join [p1, nameSpaceString] else p1)
      in (apiURL a)\<lparr>URLPath := Join [p2, checkAccessPath],
                    RawQuery := ''api-version='' @ checkAccessAPIVersion\<rparr>)"

text \<open>
  \<open>CheckAccess\<close>, without its log lines. Every return of the source is a branch; the
  state that comes back holds the calls made on the client and on the store.
\<close>

definition CheckAccess ::
  "Lib \<Rightarrow> SubjectAccessReviewSpec \<Rightarrow> AccessInfo \<Rightarrow>
   (failure + SubjectAccessReviewStatus) \<times> AccessInfo" where
  "CheckAccess lib request a =
     (case prepareCheckAccessRequestBody request (clusterType a) (azureResourceId a)
             (retrieveGroupMemberships a) of
        Inl err \<Rightarrow> (Inl (Error (ErrWrap err ''error in preparing check access request'')), a)
      | Inr checkAccessBody \<Rightarrow>
          (case json_Encode lib checkAccessBody of
             Inl err \<Rightarrow> (Inl (Error (ErrWrap err ''error encoding check access request'')), a)
           | Inr buf \<Rightarrow>
               (case http_NewRequest lib (checkAccessURL a request) of
                  Some err \<Rightarrow>
                    (Inl (Error (ErrWrap err ''error creating check access request'')), a)
                | None \<Rightarrow>
                    (let req = \<lparr>Method = ''POST'', RequestURL = checkAccessURL a request,
                                RequestHeader = headers a, RequestBody = buf\<rparr>;
                         (res, a1) = client_Do req a
                     in case res of
                          Inl err \<Rightarrow>
                            (Inl (Error (ErrWrap err ''error in check access request execution'')),
                             a1)
                        | Inr resp \<Rightarrow>
                            (case ResponseBody resp of
                               Inl err \<Rightarrow>
                                 (Inl (Error (ErrWrap err ''error in reading response body'')), a1)
                             | Inr data \<Rightarrow>
                                 if StatusCode resp \<noteq> 200 then
                                   (Inl (Error (ErrStatus (URLPath (RequestURL req))
                                                  (StatusCode resp) data)),
                                    if StatusCode resp = 429 then client_CloseIdleConnections a1
                                    else a1)
                                 else
                                   (let remaining =
                                          Header_Get (ResponseHeader resp) remaingSubReadARMHeader;
                                        count = fst (Atoi remaining);
                                        a2 = (if count < armCallLimit a
                                              then client_CloseIdleConnections a1 else a1)
                                    in case ConvertCheckAccessResponse (json_Unmarshal lib) data of
                                         Inr response \<Rightarrow>
                                           (Inr response,
                                            SetResultInCache request (Allowed response) a2)
                                       | Inl (Error err) \<Rightarrow>
                                           (Inl (Error err), SetResultInCache request False a2)
                                       | Inl (Panic msg) \<Rightarrow> (Inl (Panic msg), a2)))))))"

section \<open>Paths that cleaning leaves alone\<close>

text \<open>
  A plain element is a path element that \<open>Clean\<close> copies: not empty, without a slash,
  and neither \<open>.\<close> nor \<open>..\<close>. A plain path is a sequence of plain elements
  separated by single slashes, with or without a slash in front.
\<close>

definition plain_elem :: "string \<Rightarrow> bool" where
  "plain_elem s = (s \<noteq> [] \<and> slash \<notin> set s \<and> s \<noteq> [dot] \<and> s \<noteq> [dot, dot])"

fun split_slash :: "string \<Rightarrow> string list" where
  "split_slash [] = [[]]"
| "split_slash (c # cs) =
     (if c = slash then [] # split_slash cs
      else (case split_slash cs of [] \<Rightarrow> [[c]] | s # ss \<Rightarrow> (c # s) # ss))"

definition plain_path :: "string \<Rightarrow> bool" where
  "plain_path p =
     (case split_slash p of
        [] \<Rightarrow> False
      | s # ss \<Rightarrow> (if s = [] then ss \<noteq> [] else plain_elem s) \<and> list_all plain_elem ss)"

definition slashed :: "string list \<Rightarrow> string" where
  "slashed ts = concat (map ((#) slash) ts)"

section \<open>A test setting\<close>

text \<open>
  The setting of the repository's test of the authorizer: a server answering every
  request with one status and one body, a client in mode \<open>arc\<close> for the resource
  \<open>resourceId\<close> under \<open>/arm/\<close>, and the request of user \<open>beta@bing.com\<close> to delete
  pods in namespace \<open>dev\<close>. The decoder of the setting knows the body of the test
  and refuses every other body; its encoder writes the object id of the subject only
  (the server does not read the request).
\<close>

definition validBody :: string where
  "validBody = ''[{\"accessDecision\":\"Allowed\",\"actionId\":\"Microsoft.Kubernetes/connectedClusters/pods/delete\",\"isDataAction\":true,\"roleAssignment\":null,\"denyAssignment\":null,\"timeToLiveInMs\":300000}]''"

definition test_Unmarshal :: unmarshal where
  "test_Unmarshal body =
     (if body = validBody then
        Inr [\<lparr>Decision = ''Allowed'',
              DecisionActionId = ''Microsoft.Kubernetes/connectedClusters/pods/delete'',
              DecisionIsDataAction = True, TimeToLiveInMs = 300000\<rparr>]
      else Inl (ErrExternal ''invalid character''))"

definition test_lib :: Lib where
  "test_lib = \<lparr>json_Encode = (\<lambda>b. Inr (ObjectId (Subject b))),
               http_NewRequest = (\<lambda>u. None),
               json_Unmarshal = test_Unmarshal\<rparr>"

definition test_provider :: TokenProvider where
  "test_provider =
     \<lparr>Acquire = (\<lambda>scope. Inr \<lparr>TokenType = ''Bearer'', Expires = 8459, Token = ''token''\<rparr>),
      ProviderName = ''ClientCredentialTokenProvider''\<rparr>"

definition failing_provider :: TokenProvider where
  "failing_provider =
     \<lparr>Acquire = (\<lambda>scope. Inl (ErrExternal ''request failed with status code: 500'')),
      ProviderName = ''ClientCredentialTokenProvider''\<rparr>"

definition test_client :: "int \<Rightarrow> string \<Rightarrow> Client" where
  "test_client status body =
     \<lparr>answer = (\<lambda>req. Inr \<lparr>StatusCode = status, ResponseHeader = Map.empty,
                            ResponseBody = Inr body\<rparr>),
      calls = []\<rparr>"

definition test_AccessInfo :: "TokenProvider \<Rightarrow> int \<Rightarrow> string \<Rightarrow> AccessInfo" where
  "test_AccessInfo provider status body =
     newAccessInfo provider (test_client status body)
       \<lparr>Scheme = ''http'', Host = ''127.0.0.1'', URLPath = ''/arm/'', RawQuery = []\<rparr>
       ''arc'' ''resourceId'' 2000 [] [''alpha, tango, charlie''] True True"

definition test_attributes :: ResourceAttributes where
  "test_attributes =
     \<lparr>Namespace = ''dev'', Verb = ''delete'', Group = [], Version = ''v1'',
      Resource = ''pods'', Subresource = ''status'', Name = ''test''\<rparr>"

definition test_request :: SubjectAccessReviewSpec where
  "test_request =
     \<lparr>ResourceAttributes = Some test_attributes,
      NonResourceAttributes = None,
      User = ''beta@bing.com'',
      Groups = [],
      Extra = [''oid'' \<mapsto> [''00000000-0000-0000-0000-000000000000'']],
      UID = []\<rparr>"

section \<open>Cleaning plain paths\<close>

lemma slashed_simps [simp]:
  "slashed [] = []" "slashed (t # ts) = slash # t @ slashed ts"
  "slashed (ts @ us) = slashed ts @ slashed us"
  by (simp_all add: slashed_def)

lemma split_slash_nonempty: "split_slash p \<noteq> []"
  by (induction p) (auto split: list.splits)

lemma plain_elem_not_special:
  assumes "plain_elem (c # s)"
  shows "c \<noteq> slash" "\<not> is_dot_elem c (s @ slashed ts)" "\<not> is_dotdot_elem c (s @ slashed ts)"
proof -
  from assms show "c \<noteq> slash" by (auto simp: plain_elem_def)
  from assms show "\<not> is_dot_elem c (s @ slashed ts)"
    by (cases s) (auto simp: plain_elem_def is_dot_elem_def)
  from assms show "\<not> is_dotdot_elem c (s @ slashed ts)"
  proof (cases s)
    case Nil
    then show ?thesis by (cases ts) (auto simp: is_dotdot_elem_def slash_def dot_def)
  next
    case (Cons d s')
    with assms show ?thesis
      by (cases s') (auto simp: plain_elem_def is_dotdot_elem_def)
  qed
qed

lemma takeWhile_plain:
  "slash \<notin> set s \<Longrightarrow> takeWhile (\<lambda>x. x \<noteq> slash) (s @ slashed ts) = s"
  by (induction s) (auto, cases ts, auto)

lemma dropWhile_plain:
  "slash \<notin> set s \<Longrightarrow> dropWhile (\<lambda>x. x \<noteq> slash) (s @ slashed ts) = slashed ts"
  by (induction s) (auto, cases ts, auto)

lemma clean_loop_plain:
  assumes "plain_elem s" "list_all plain_elem ts" "rooted \<Longrightarrow> out \<noteq> []"
  shows "clean_loop rooted (s @ slashed ts) out dotdot =
           (if (rooted \<and> length out \<noteq> 1) \<or> (\<not> rooted \<and> length out \<noteq> 0) then out @ [slash] else out)
             @ s @ slashed ts"
  using assms
proof (induction ts arbitrary: s out)
  case Nil
  then obtain c s' where s: "s = c # s'" by (cases s) (auto simp: plain_elem_def)
  with Nil have ns: "slash \<notin> set s'" by (auto simp: plain_elem_def)
  from Nil(1) s have pc: "plain_elem (c # s')" by simp
  have tw: "takeWhile (\<lambda>x. x \<noteq> slash) s' = s'" "dropWhile (\<lambda>x. x \<noteq> slash) s' = []"
    using ns by auto
  show ?case
    using Nil s plain_elem_not_special(1)[OF pc] plain_elem_not_special(2,3)[OF pc, of "[]"]
    by (simp add: clean_loop.simps(2) tw)
next
  case (Cons t ts)
  then obtain c s' where s: "s = c # s'" by (cases s) (auto simp: plain_elem_def)
  with Cons have ns: "slash \<notin> set s'" by (auto simp: plain_elem_def)
  let ?out' = "(if (rooted \<and> length out \<noteq> 1) \<or> (\<not> rooted \<and> length out \<noteq> 0) then out @ [slash] else out) @ c # s'"
  from Cons.prems(1) s have pc: "plain_elem (c # s')" by simp
  have step: "clean_loop rooted (s @ slashed (t # ts)) out dotdot = clean_loop rooted (t @ slashed ts) ?out' dotdot"
    using Cons.prems s plain_elem_not_special(1)[OF pc] plain_elem_not_special(2,3)[OF pc, of "t # ts"]
    by (simp add: clean_loop.simps(2) takeWhile_plain[OF ns, of "t # ts", simplified]
          dropWhile_plain[OF ns, of "t # ts", simplified])
  have len: "(rooted \<and> length ?out' \<noteq> 1) \<or> (\<not> rooted \<and> length ?out' \<noteq> 0)"
    using Cons.prems(3) by (cases out) auto
  have "clean_loop rooted (t @ slashed ts) ?out' dotdot = ?out' @ [slash] @ t @ slashed ts"
    using Cons.IH[of t ?out'] Cons.prems len by (simp del: append_assoc)
  with step s show ?case by simp
qed

lemma Clean_plain_relative:
  assumes "plain_elem s" "list_all plain_elem ts"
  shows "Clean (s @ slashed ts) = s @ slashed ts"
proof -
  from assms obtain c s' where s: "s = c # s'" "c \<noteq> slash" by (cases s) (auto simp: plain_elem_def)
  have "clean_loop False (s @ slashed ts) [] 0 = s @ slashed ts"
    using clean_loop_plain[OF assms, of False "[]" 0] by simp
  with s show ?thesis by (simp add: Clean_def)
qed

lemma Clean_plain_rooted:
  assumes "plain_elem s" "list_all plain_elem ts"
  shows "Clean (slash # s @ slashed ts) = slash # s @ slashed ts"
proof -
  have "clean_loop True (s @ slashed ts) [slash] 1 = slash # s @ slashed ts"
    using clean_loop_plain[OF assms, of True "[slash]" 1] by simp
  then show ?thesis by (simp add: Clean_def)
qed


lemma unsplit_slash: "split_slash p = s # ss \<Longrightarrow> p = s @ slashed ss"
proof (induction p arbitrary: s ss)
  case Nil
  then show ?case by simp
next
  case (Cons c cs)
  show ?case
  proof (cases "c = slash")
    case True
    with Cons show ?thesis by (cases "split_slash cs") (auto simp: split_slash_nonempty)
  next
    case False
    with Cons show ?thesis by (cases "split_slash cs") (auto simp: split_slash_nonempty)
  qed
qed

lemma Clean_plain_path_append:
  assumes "plain_path p" "list_all plain_elem us"
  shows "Clean (p @ slashed us) = p @ slashed us"
proof -
  obtain s ss where sp: "split_slash p = s # ss"
    using split_slash_nonempty[of p] by (cases "split_slash p") auto
  then have p: "p = s @ slashed ss" by (rule unsplit_slash)
  show ?thesis
  proof (cases "s = []")
    case True
    with assms sp obtain t ts where ss: "ss = t # ts" "plain_elem t" "list_all plain_elem ts"
      by (cases ss) (auto simp: plain_path_def)
    then show ?thesis
      using Clean_plain_rooted[of t "ts @ us"] assms(2) p True by simp
  next
    case False
    with assms sp have "plain_elem s" "list_all plain_elem ss"
      by (auto simp: plain_path_def)
    then show ?thesis
      using Clean_plain_relative[of s "ss @ us"] assms(2) p by simp
  qed
qed

lemma plain_path_nonempty: "plain_path p \<Longrightarrow> p \<noteq> []"
  by (auto simp: plain_path_def)


lemma getScope_plain:
  assumes "plain_path resourceId" "plain_elem (Namespace a)"
  shows "getScope resourceId (Some a) = resourceId @ ''/namespaces/'' @ Namespace a"
proof -
  have pn: "plain_elem namespaces" by (simp add: plain_elem_def namespaces_def slash_def dot_def)
  have "Clean (resourceId @ slashed [namespaces, Namespace a]) = resourceId @ slashed [namespaces, Namespace a]"
    using Clean_plain_path_append[OF assms(1), of "[namespaces, Namespace a]"] pn assms(2) by simp
  then show ?thesis
    using assms plain_path_nonempty[OF assms(1)]
    by (auto simp: getScope_def Join_def plain_elem_def namespaces_def slash_def)
qed

section \<open>The action table\<close>

text \<open>
  Claim C4. The mapping from verbs to actions is defined on every string and agrees with
  the table: get, list and watch give read; create, patch and update give write; delete
  and deletecollection give delete; bind, escalate, use and impersonate give
  bind/action, escalate/action, use/action and impersonate/action; every other verb
  gives the empty string.
\<close>

theorem getActionName_table:
  "getActionName verb =
     (if verb \<in> {''get'', ''list'', ''watch''} then ''read''
      else if verb \<in> {''create'', ''patch'', ''update''} then ''write''
      else if verb \<in> {''delete'', ''deletecollection''} then ''delete''
      else if verb = ''bind'' then ''bind/action''
      else if verb = ''escalate'' then ''escalate/action''
      else if verb = ''use'' then ''use/action''
      else if verb = ''impersonate'' then ''impersonate/action''
      else [])"
  by (simp add: getActionName_def)

text \<open>The table at the verbs of the specification's examples, and at a verb outside it.\<close>

theorem getActionName_table_witness:
  "getActionName ''get'' = ''read'' \<and> getActionName ''create'' = ''write''
   \<and> getActionName ''delete'' = ''delete'' \<and> getActionName ''bind'' = ''bind/action''
   \<and> getActionName ''escalate'' = ''escalate/action'' \<and> getActionName ''use'' = ''use/action''
   \<and> getActionName ''impersonate'' = ''impersonate/action'' \<and> getActionName ''unknown'' = []"
  using getActionName_table[of "''get''"] getActionName_table[of "''create''"]
    getActionName_table[of "''delete''"] getActionName_table[of "''bind''"]
    getActionName_table[of "''escalate''"] getActionName_table[of "''use''"]
    getActionName_table[of "''impersonate''"] getActionName_table[of "''unknown''"]
  by simp

section \<open>The scope of a request\<close>

text \<open>
  Claim C6, as stated, fails: with an empty resource id and the namespace \<open>test\<close> the
  scope is \<open>namespaces/test\<close>, without the slash in front that
  \<open>resourceId + "/namespaces/" + ns\<close> has.
\<close>

theorem getScope_empty_resourceId_counterexample:
  "getScope [] (Some \<lparr>Namespace = ''test'', Verb = [], Group = [], Version = [], Resource = [],
       Subresource = [], Name = []\<rparr>) \<noteq> [] @ ''/namespaces/'' @ ''test''"
  by code_simp

text \<open>
  Claim C6, amended. The scope is the resource id unchanged when the attributes are nil
  or their namespace is empty. With a namespace \<open>ns\<close> it is
  \<open>path.Join(resourceId, "namespaces", ns)\<close>, and that is
  \<open>resourceId + "/namespaces/" + ns\<close> whenever the resource id is a plain path and
  \<open>ns\<close> a plain element.
\<close>

theorem getScope_cases:
  "(attr = None \<or> (\<exists>a. attr = Some a \<and> Namespace a = []) \<longrightarrow> getScope resourceId attr = resourceId)
   \<and> (attr = Some a \<and> Namespace a \<noteq> [] \<longrightarrow>
        getScope resourceId attr = Join [resourceId, namespaces, Namespace a])
   \<and> (attr = Some a \<and> plain_path resourceId \<and> plain_elem (Namespace a) \<longrightarrow>
        getScope resourceId attr = resourceId @ ''/namespaces/'' @ Namespace a)"
proof (intro conjI impI)
  assume "attr = None \<or> (\<exists>a. attr = Some a \<and> Namespace a = [])"
  then show "getScope resourceId attr = resourceId"
    by (auto simp: getScope_def)
next
  assume "attr = Some a \<and> Namespace a \<noteq> []"
  then show "getScope resourceId attr = Join [resourceId, namespaces, Namespace a]"
    by (simp add: getScope_def)
next
  assume "attr = Some a \<and> plain_path resourceId \<and> plain_elem (Namespace a)"
  then show "getScope resourceId attr = resourceId @ ''/namespaces/'' @ Namespace a"
    using getScope_plain by simp
qed

lemma plain_path_resourceId: "plain_path ''resourceId''"
  by code_simp

lemma plain_elem_test: "plain_elem ''test''"
  by code_simp

text \<open>The three cases at the resource id \<open>resourceId\<close>; the last is the example of the claim.\<close>

theorem getScope_cases_witness:
  "getScope ''resourceId'' None = ''resourceId''
   \<and> getScope ''resourceId'' (Some \<lparr>Namespace = [], Verb = [], Group = [], Version = [],
        Resource = [], Subresource = [], Name = []\<rparr>) = ''resourceId''
   \<and> getScope ''resourceId'' (Some \<lparr>Namespace = ''test'', Verb = [], Group = [], Version = [],
        Resource = [], Subresource = [], Name = []\<rparr>) = ''resourceId/namespaces/test''"
proof (intro conjI)
  show "getScope ''resourceId'' None = ''resourceId''"
    using getScope_cases[of None "''resourceId''"] by simp
  show "getScope ''resourceId'' (Some \<lparr>Namespace = [], Verb = [], Group = [], Version = [],
        Resource = [], Subresource = [], Name = []\<rparr>) = ''resourceId''"
    using getScope_cases[of "Some \<lparr>Namespace = [], Verb = [], Group = [], Version = [],
        Resource = [], Subresource = [], Name = []\<rparr>" "''resourceId''"] by simp
  show "getScope ''resourceId'' (Some \<lparr>Namespace = ''test'', Verb = [], Group = [], Version = [],
        Resource = [], Subresource = [], Name = []\<rparr>) = ''resourceId/namespaces/test''"
    using getScope_cases[of "Some \<lparr>Namespace = ''test'', Verb = [], Group = [], Version = [],
        Resource = [], Subresource = [], Name = []\<rparr>" "''resourceId''"
        "\<lparr>Namespace = ''test'', Verb = [], Group = [], Version = [],
        Resource = [], Subresource = [], Name = []\<rparr>", THEN conjunct2, THEN conjunct2]
      plain_path_resourceId plain_elem_test by simp
qed

section \<open>The cache key\<close>

text \<open>
  Claim C3. The cache key is a function of the request: two requests with the same user,
  the same namespace, API group, resource and verb (where there are resource attributes)
  and the same path and verb (where there are non-resource attributes) have the same
  key. The verb enters only through its action: two verbs with the same action give the
  same key. The key of user \<open>alpha@bing.com\<close> deleting \<open>pods\<close> in namespace \<open>dev\<close> is
  \<open>alpha@bing.com/dev/pods/delete\<close>.
\<close>

theorem getResultCacheKey_deterministic:
  "(User p = User q
      \<and> rel_option (\<lambda>x y. Namespace x = Namespace y \<and> Group x = Group y
                          \<and> Resource x = Resource y \<and> Verb x = Verb y)
           (ResourceAttributes p) (ResourceAttributes q)
      \<and> rel_option (\<lambda>x y. Path x = Path y \<and> NonResourceVerb x = NonResourceVerb y)
           (NonResourceAttributes p) (NonResourceAttributes q)
      \<longrightarrow> getResultCacheKey p = getResultCacheKey q)
   \<and> (getActionName v = getActionName w \<longrightarrow>
        getResultCacheKey (r\<lparr>ResourceAttributes := Some (ra\<lparr>Verb := v\<rparr>)\<rparr>)
          = getResultCacheKey (r\<lparr>ResourceAttributes := Some (ra\<lparr>Verb := w\<rparr>)\<rparr>))
   \<and> (getActionName v = getActionName w \<longrightarrow>
        getResultCacheKey (r\<lparr>ResourceAttributes := None,
                               NonResourceAttributes := Some (nra\<lparr>NonResourceVerb := v\<rparr>)\<rparr>)
          = getResultCacheKey (r\<lparr>ResourceAttributes := None,
                               NonResourceAttributes := Some (nra\<lparr>NonResourceVerb := w\<rparr>)\<rparr>))
   \<and> getResultCacheKey
        \<lparr>ResourceAttributes = Some \<lparr>Namespace = ''dev'', Verb = ''delete'', Group = [],
           Version = [], Resource = ''pods'', Subresource = [], Name = []\<rparr>,
         NonResourceAttributes = None, User = ''alpha@bing.com'', Groups = [],
         Extra = Map.empty, UID = []\<rparr> = ''alpha@bing.com/dev/pods/delete''"
proof (intro conjI impI)
  assume h: "User p = User q
      \<and> rel_option (\<lambda>x y. Namespace x = Namespace y \<and> Group x = Group y
                          \<and> Resource x = Resource y \<and> Verb x = Verb y)
           (ResourceAttributes p) (ResourceAttributes q)
      \<and> rel_option (\<lambda>x y. Path x = Path y \<and> NonResourceVerb x = NonResourceVerb y)
           (NonResourceAttributes p) (NonResourceAttributes q)"
  show "getResultCacheKey p = getResultCacheKey q"
  proof (cases "ResourceAttributes p")
    case None
    with h have n2: "ResourceAttributes q = None" by (cases "ResourceAttributes q") auto
    show ?thesis
    proof (cases "NonResourceAttributes p")
      case None
      with h have "NonResourceAttributes q = None" by (cases "NonResourceAttributes q") auto
      with None n2 \<open>ResourceAttributes p = None\<close> h show ?thesis
        by (simp add: getResultCacheKey_def Let_def)
    next
      case (Some x)
      with h obtain y where "NonResourceAttributes q = Some y" "Path x = Path y"
        "NonResourceVerb x = NonResourceVerb y"
        by (cases "NonResourceAttributes q") auto
      with Some n2 \<open>ResourceAttributes p = None\<close> h show ?thesis
        by (simp add: getResultCacheKey_def Let_def)
    qed
  next
    case (Some x)
    with h obtain y where "ResourceAttributes q = Some y" "Namespace x = Namespace y"
      "Group x = Group y" "Resource x = Resource y" "Verb x = Verb y"
      by (cases "ResourceAttributes q") auto
    with Some h show ?thesis
      by (simp add: getResultCacheKey_def Let_def)
  qed
next
  assume "getActionName v = getActionName w"
  then show "getResultCacheKey (r\<lparr>ResourceAttributes := Some (ra\<lparr>Verb := v\<rparr>)\<rparr>)
          = getResultCacheKey (r\<lparr>ResourceAttributes := Some (ra\<lparr>Verb := w\<rparr>)\<rparr>)"
    by (simp add: getResultCacheKey_def Let_def)
next
  assume "getActionName v = getActionName w"
  then show "getResultCacheKey (r\<lparr>ResourceAttributes := None,
                               NonResourceAttributes := Some (nra\<lparr>NonResourceVerb := v\<rparr>)\<rparr>)
          = getResultCacheKey (r\<lparr>ResourceAttributes := None,
                               NonResourceAttributes := Some (nra\<lparr>NonResourceVerb := w\<rparr>)\<rparr>)"
    by (simp add: getResultCacheKey_def Let_def)
next
  show "getResultCacheKey
        \<lparr>ResourceAttributes = Some \<lparr>Namespace = ''dev'', Verb = ''delete'', Group = [],
           Version = [], Resource = ''pods'', Subresource = [], Name = []\<rparr>,
         NonResourceAttributes = None, User = ''alpha@bing.com'', Groups = [],
         Extra = Map.empty, UID = []\<rparr> = ''alpha@bing.com/dev/pods/delete''"
    by code_simp
qed

lemma getActionName_get_list: "getActionName ''get'' = getActionName ''list''"
  by (simp add: getActionName_def)

text \<open>
  Two requests that differ in name, subresource, groups and UID only, and two pairs of
  requests that differ in the verbs \<open>get\<close> and \<open>list\<close> only.
\<close>

theorem getResultCacheKey_deterministic_witness:
  "getResultCacheKey test_request
     = getResultCacheKey (test_request\<lparr>Groups := [''system:authenticated''], UID := ''u1'',
         ResourceAttributes := Some (test_attributes\<lparr>Name := ''other'', Subresource := []\<rparr>)\<rparr>)
   \<and> getResultCacheKey (test_request\<lparr>ResourceAttributes := Some (test_attributes\<lparr>Verb := ''get''\<rparr>)\<rparr>)
     = getResultCacheKey (test_request\<lparr>ResourceAttributes := Some (test_attributes\<lparr>Verb := ''list''\<rparr>)\<rparr>)
   \<and> getResultCacheKey (test_request\<lparr>ResourceAttributes := None,
         NonResourceAttributes := Some (\<lparr>Path = ''/logs'', NonResourceVerb = ''get''\<rparr>\<lparr>NonResourceVerb := ''get''\<rparr>)\<rparr>)
     = getResultCacheKey (test_request\<lparr>ResourceAttributes := None,
         NonResourceAttributes := Some (\<lparr>Path = ''/logs'', NonResourceVerb = ''get''\<rparr>\<lparr>NonResourceVerb := ''list''\<rparr>)\<rparr>)"
  using getResultCacheKey_deterministic[where p = test_request
      and q = "test_request\<lparr>Groups := [''system:authenticated''], UID := ''u1'',
         ResourceAttributes := Some (test_attributes\<lparr>Name := ''other'', Subresource := []\<rparr>)\<rparr>"
      and v = "''get''" and w = "''list''" and r = test_request and ra = test_attributes
      and nra = "\<lparr>Path = ''/logs'', NonResourceVerb = ''get''\<rparr>"]
    getActionName_get_list
  by (simp add: test_request_def test_attributes_def)

section \<open>The response\<close>

text \<open>
  Claim C2. When the body decodes to a list with at least one decision,
  \<open>ConvertCheckAccessResponse\<close> returns allowed and not denied, with the reason
  \<open>AccessAllowedVerdict\<close>, exactly when the disposition of the first decision is
  \<open>allowed\<close> up to the case of its letters; otherwise it returns not allowed and denied,
  with the reason \<open>AccessNotAllowedVerdict\<close>.
\<close>

theorem ConvertCheckAccessResponse_first_decision:
  assumes "unm body = Inr (d # ds)"
  shows "ConvertCheckAccessResponse unm body =
           Inr (if ToLower (Decision d) = ''allowed''
                then \<lparr>Allowed = True, Denied = False, Reason = AccessAllowedVerdict,
                      EvaluationError = []\<rparr>
                else \<lparr>Allowed = False, Denied = True, Reason = AccessNotAllowedVerdict,
                      EvaluationError = []\<rparr>)"
  using assms by (simp add: ConvertCheckAccessResponse_def Allowed_word_def)

lemma test_Unmarshal_validBody:
  "test_Unmarshal validBody =
     Inr (\<lparr>Decision = ''Allowed'',
           DecisionActionId = ''Microsoft.Kubernetes/connectedClusters/pods/delete'',
           DecisionIsDataAction = True, TimeToLiveInMs = 300000\<rparr> # [])"
  by (simp add: test_Unmarshal_def)

lemma ToLower_Allowed: "ToLower ''Allowed'' = ''allowed''"
  by code_simp

lemma ToLower_Denied: "ToLower ''Denied'' \<noteq> ''allowed''"
  by code_simp

text \<open>The body of the repository's test, and a body whose first decision is \<open>Denied\<close>.\<close>

theorem ConvertCheckAccessResponse_first_decision_witness:
  "ConvertCheckAccessResponse test_Unmarshal validBody =
     Inr \<lparr>Allowed = True, Denied = False, Reason = ''Access allowed'', EvaluationError = []\<rparr>
   \<and> ConvertCheckAccessResponse
        (\<lambda>b. Inr [\<lparr>Decision = ''Denied'', DecisionActionId = [], DecisionIsDataAction = True,
                    TimeToLiveInMs = 0\<rparr>]) ''[{}]'' =
     Inr \<lparr>Allowed = False, Denied = True, Reason = AccessNotAllowedVerdict, EvaluationError = []\<rparr>"
  using ConvertCheckAccessResponse_first_decision[of test_Unmarshal validBody
      "\<lparr>Decision = ''Allowed'',
        DecisionActionId = ''Microsoft.Kubernetes/connectedClusters/pods/delete'',
        DecisionIsDataAction = True, TimeToLiveInMs = 300000\<rparr>" "[]"]
    test_Unmarshal_validBody
    ConvertCheckAccessResponse_first_decision[of
      "\<lambda>b. Inr [\<lparr>Decision = ''Denied'', DecisionActionId = [], DecisionIsDataAction = True,
                    TimeToLiveInMs = 0\<rparr>]" "''[{}]''"
      "\<lparr>Decision = ''Denied'', DecisionActionId = [], DecisionIsDataAction = True,
                    TimeToLiveInMs = 0\<rparr>" "[]"]
    ToLower_Allowed ToLower_Denied
  by (simp add: AccessAllowedVerdict_def)

section \<open>Tokens\<close>

text \<open>
  Claim C8. When the token provider fails, \<open>RefreshToken\<close> returns an error and the
  client is as before: the headers, with the Authorization header among them, and the
  stored expiry are unchanged.
\<close>

theorem RefreshToken_failure_unchanged:
  assumes "Acquire (tokenProvider a) [] = Inl err"
  shows "RefreshToken now a = (Some (ErrWrap err ''failed to refresh rbac token''), a)
         \<and> headers (snd (RefreshToken now a)) = headers a
         \<and> expiresAt (snd (RefreshToken now a)) = expiresAt a"
  using assms by (simp add: RefreshToken_def)

lemma failing_provider_fails:
  "Acquire (tokenProvider (test_AccessInfo failing_provider 200 validBody)) [] =
     Inl (ErrExternal ''request failed with status code: 500'')"
  by (simp add: test_AccessInfo_def newAccessInfo_def failing_provider_def)

text \<open>A provider whose token endpoint answers with status 500.\<close>

theorem RefreshToken_failure_unchanged_witness:
  "RefreshToken 5 (test_AccessInfo failing_provider 200 validBody) =
     (Some (ErrWrap (ErrExternal ''request failed with status code: 500'')
        ''failed to refresh rbac token''),
      test_AccessInfo failing_provider 200 validBody)"
  using RefreshToken_failure_unchanged[OF failing_provider_fails, of 5] by simp

lemma sint_expiry:
  fixes e :: "64 word"
  assumes "- 9223371976 \<le> sint e" "sint e \<le> 9223372036"
  shows "sint (e * Second - expiryDelta) = (sint e - 60) * 1000000000"
proof -
  have m: "sint (e * Second) = sint e * 1000000000"
  proof -
    have "sint (e * Second) = signed_take_bit 63 (sint e * 1000000000)"
      by (simp add: sint_word_ariths Second_def)
    also have "\<dots> = sint e * 1000000000"
      using assms by (intro signed_take_bit_int_eq_self) auto
    finally show ?thesis .
  qed
  have "sint (e * Second - expiryDelta) = signed_take_bit 63 (sint (e * Second) - 60000000000)"
    by (simp add: sint_word_ariths expiryDelta_def Second_def)
  also have "\<dots> = sint e * 1000000000 - 60000000000"
    unfolding m using assms by (intro signed_take_bit_int_eq_self) auto
  finally show ?thesis by (simp add: algebra_simps)
qed

text \<open>
  Claim C7, as stated, fails: a refresh at time 0 with a life time of 8459 seconds stores
  the expiry 8399 seconds, and at exactly that instant \<open>IsTokenExpired\<close> is false.
\<close>

theorem IsTokenExpired_at_expiry_counterexample:
  "fst (RefreshToken 0 (test_AccessInfo test_provider 200 validBody)) = None
   \<and> expiresAt (snd (RefreshToken 0 (test_AccessInfo test_provider 200 validBody)))
       = (8459 - 60) * 1000000000
   \<and> \<not> IsTokenExpired ((8459 - 60) * 1000000000)
         (snd (RefreshToken 0 (test_AccessInfo test_provider 200 validBody)))"
  by (simp add: RefreshToken_def test_AccessInfo_def newAccessInfo_def test_provider_def
      IsTokenExpired_def Time_Before_def Time_Add_def Second_def expiryDelta_def)

text \<open>
  Claim C7, amended. \<open>IsTokenExpired\<close> is true exactly when the current time is after
  the stored expiry, and false at the instant of the stored expiry itself. A successful
  refresh at time \<open>t\<close> stores \<open>t\<close> plus the life time of the token less 60 seconds
  (for a life time whose nanoseconds fit 64 bits).
\<close>

theorem IsTokenExpired_strict:
  "IsTokenExpired now a = (expiresAt a < now)
   \<and> (Acquire (tokenProvider a) [] = Inr resp
        \<and> - 9223371976 \<le> sint (Expires resp) \<and> sint (Expires resp) \<le> 9223372036 \<longrightarrow>
      fst (RefreshToken t a) = None
      \<and> expiresAt (snd (RefreshToken t a)) = t + (sint (Expires resp) - 60) * 1000000000
      \<and> IsTokenExpired now (snd (RefreshToken t a))
          = (t + (sint (Expires resp) - 60) * 1000000000 < now))"
proof (intro conjI impI)
  show "IsTokenExpired now a = (expiresAt a < now)"
    by (simp add: IsTokenExpired_def Time_Before_def)
next
  assume h: "Acquire (tokenProvider a) [] = Inr resp
        \<and> - 9223371976 \<le> sint (Expires resp) \<and> sint (Expires resp) \<le> 9223372036"
  then have e: "sint (Expires resp * Second - expiryDelta) = (sint (Expires resp) - 60) * 1000000000"
    using sint_expiry by blast
  from h show "fst (RefreshToken t a) = None"
    by (simp add: RefreshToken_def)
  from h e show x: "expiresAt (snd (RefreshToken t a)) = t + (sint (Expires resp) - 60) * 1000000000"
    by (simp add: RefreshToken_def Time_Add_def)
  then show "IsTokenExpired now (snd (RefreshToken t a))
          = (t + (sint (Expires resp) - 60) * 1000000000 < now)"
    by (simp add: IsTokenExpired_def Time_Before_def)
qed

lemma test_provider_answers:
  "Acquire (tokenProvider (test_AccessInfo test_provider 200 validBody)) [] =
     Inr \<lparr>TokenType = ''Bearer'', Expires = 8459, Token = ''token''\<rparr>"
  by (simp add: test_AccessInfo_def newAccessInfo_def test_provider_def)

text \<open>A refresh at time 1000 with a life time of 8459 seconds, read at the expiry and just after.\<close>

theorem IsTokenExpired_strict_witness:
  "fst (RefreshToken 1000 (test_AccessInfo test_provider 200 validBody)) = None
   \<and> expiresAt (snd (RefreshToken 1000 (test_AccessInfo test_provider 200 validBody)))
       = 8399000001000
   \<and> \<not> IsTokenExpired 8399000001000 (snd (RefreshToken 1000 (test_AccessInfo test_provider 200 validBody)))
   \<and> IsTokenExpired 8399000001001 (snd (RefreshToken 1000 (test_AccessInfo test_provider 200 validBody)))"
  using IsTokenExpired_strict[of 8399000001000 "test_AccessInfo test_provider 200 validBody"
      "\<lparr>TokenType = ''Bearer'', Expires = 8459, Token = ''token''\<rparr>" 1000]
    IsTokenExpired_strict[of 8399000001001 "test_AccessInfo test_provider 200 validBody"
      "\<lparr>TokenType = ''Bearer'', Expires = 8459, Token = ''token''\<rparr>" 1000]
    test_provider_answers
  by simp

section \<open>The object id\<close>

lemma oid_text:
  "take (length (ExtraValue_String t) - 1 - 1) (drop 1 (ExtraValue_String t)) = space_joined t"
  by (simp add: ExtraValue_String_def)

lemma oid_text_Suc:
  "take (length (ExtraValue_String t) - Suc (Suc 0)) (drop (Suc 0) (ExtraValue_String t)) =
     space_joined t"
  by (simp add: ExtraValue_String_def)

lemma prepare_oid_missing:
  assumes "Extra request ''oid'' = None"
  shows "prepareCheckAccessRequestBody request ct rid rgm =
           Inl (ErrNew ''oid info not sent from authentication module'')"
  using assms by (simp add: prepareCheckAccessRequestBody_def)

lemma prepare_oid_invalid:
  assumes "Extra request ''oid'' = Some oid" "\<not> isValidUUID (space_joined oid)"
  shows "prepareCheckAccessRequestBody request ct rid rgm =
           Inl (ErrNew ''oid info sent from authentication module is not valid'')"
  using assms by (simp add: prepareCheckAccessRequestBody_def Let_def oid_text_Suc)

lemma CheckAccess_prepare_error:
  assumes "prepareCheckAccessRequestBody request (clusterType a) (azureResourceId a)
             (retrieveGroupMemberships a) = Inl err"
  shows "CheckAccess lib request a =
           (Inl (Error (ErrWrap err ''error in preparing check access request'')), a)"
  using assms by (simp add: CheckAccess_def)

text \<open>
  Claim C5. When the extra claims of the request have no \<open>oid\<close> entry, or the text of
  the \<open>oid\<close> entry is not a well-formed UUID, building the request body returns an
  error and \<open>CheckAccess\<close> returns that error, wrapped, with the client as before:
  no call has been made on the HTTP client and none on the store.
\<close>

theorem CheckAccess_oid_error:
  assumes "Extra request ''oid'' = None
           \<or> (\<exists>oid. Extra request ''oid'' = Some oid \<and> \<not> isValidUUID (space_joined oid))"
  shows "\<exists>err. prepareCheckAccessRequestBody request (clusterType a) (azureResourceId a)
                 (retrieveGroupMemberships a) = Inl err
               \<and> err \<in> {ErrNew ''oid info not sent from authentication module'',
                        ErrNew ''oid info sent from authentication module is not valid''}
               \<and> CheckAccess lib request a =
                   (Inl (Error (ErrWrap err ''error in preparing check access request'')), a)"
  using assms
proof
  assume "Extra request ''oid'' = None"
  then have "prepareCheckAccessRequestBody request (clusterType a) (azureResourceId a)
                 (retrieveGroupMemberships a) = Inl (ErrNew ''oid info not sent from authentication module'')"
    by (rule prepare_oid_missing)
  then show ?thesis using CheckAccess_prepare_error by blast
next
  assume "\<exists>oid. Extra request ''oid'' = Some oid \<and> \<not> isValidUUID (space_joined oid)"
  then have "prepareCheckAccessRequestBody request (clusterType a) (azureResourceId a)
                 (retrieveGroupMemberships a) = Inl (ErrNew ''oid info sent from authentication module is not valid'')"
    using prepare_oid_invalid by blast
  then show ?thesis using CheckAccess_prepare_error by blast
qed

lemma test_not_uuid: "\<not> isValidUUID (space_joined [''test''])"
  by code_simp

lemma test_prepare_missing:
  "prepareCheckAccessRequestBody (test_request\<lparr>Extra := Map.empty\<rparr>)
     (clusterType (test_AccessInfo test_provider 200 validBody))
     (azureResourceId (test_AccessInfo test_provider 200 validBody))
     (retrieveGroupMemberships (test_AccessInfo test_provider 200 validBody)) =
   Inl (ErrNew ''oid info not sent from authentication module'')"
  by (simp add: prepareCheckAccessRequestBody_def)

lemma test_prepare_invalid:
  "prepareCheckAccessRequestBody (test_request\<lparr>Extra := [''oid'' \<mapsto> [''test'']]\<rparr>)
     (clusterType (test_AccessInfo test_provider 200 validBody))
     (azureResourceId (test_AccessInfo test_provider 200 validBody))
     (retrieveGroupMemberships (test_AccessInfo test_provider 200 validBody)) =
   Inl (ErrNew ''oid info sent from authentication module is not valid'')"
  using test_not_uuid by (simp add: prepareCheckAccessRequestBody_def Let_def oid_text_Suc)

text \<open>The request of the test without extra claims, and with the \<open>oid\<close> entry \<open>test\<close>.\<close>

theorem CheckAccess_oid_error_witness:
  "CheckAccess test_lib (test_request\<lparr>Extra := Map.empty\<rparr>)
      (test_AccessInfo test_provider 200 validBody) =
     (Inl (Error (ErrWrap (ErrNew ''oid info not sent from authentication module'')
        ''error in preparing check access request'')),
      test_AccessInfo test_provider 200 validBody)
   \<and> CheckAccess test_lib (test_request\<lparr>Extra := [''oid'' \<mapsto> [''test'']]\<rparr>)
      (test_AccessInfo test_provider 200 validBody) =
     (Inl (Error (ErrWrap (ErrNew ''oid info sent from authentication module is not valid'')
        ''error in preparing check access request'')),
      test_AccessInfo test_provider 200 validBody)
   \<and> calls (client (test_AccessInfo test_provider 200 validBody)) = []"
proof (intro conjI)
  have "Extra (test_request\<lparr>Extra := Map.empty\<rparr>) ''oid'' = None" by simp
  then show "CheckAccess test_lib (test_request\<lparr>Extra := Map.empty\<rparr>)
      (test_AccessInfo test_provider 200 validBody) =
     (Inl (Error (ErrWrap (ErrNew ''oid info not sent from authentication module'')
        ''error in preparing check access request'')),
      test_AccessInfo test_provider 200 validBody)"
    using CheckAccess_oid_error[of "test_request\<lparr>Extra := Map.empty\<rparr>"
        "test_AccessInfo test_provider 200 validBody" test_lib]
    by (simp add: test_prepare_missing)
  have "Extra (test_request\<lparr>Extra := [''oid'' \<mapsto> [''test'']]\<rparr>) ''oid'' = Some [''test'']"
    by simp
  then show "CheckAccess test_lib (test_request\<lparr>Extra := [''oid'' \<mapsto> [''test'']]\<rparr>)
      (test_AccessInfo test_provider 200 validBody) =
     (Inl (Error (ErrWrap (ErrNew ''oid info sent from authentication module is not valid'')
        ''error in preparing check access request'')),
      test_AccessInfo test_provider 200 validBody)"
    using CheckAccess_oid_error[of "test_request\<lparr>Extra := [''oid'' \<mapsto> [''test'']]\<rparr>"
        "test_AccessInfo test_provider 200 validBody" test_lib] test_not_uuid
    by (simp add: test_prepare_invalid)
  show "calls (client (test_AccessInfo test_provider 200 validBody)) = []"
    by (simp add: test_AccessInfo_def newAccessInfo_def test_client_def)
qed

section \<open>Writing the cache\<close>

lemma CheckAccess_called:
  assumes "prepareCheckAccessRequestBody request (clusterType a) (azureResourceId a)
             (retrieveGroupMemberships a) = Inr body"
    and "json_Encode lib body = Inr buf"
    and "http_NewRequest lib (checkAccessURL a request) = None"
    and "req = \<lparr>Method = ''POST'', RequestURL = checkAccessURL a request,
                RequestHeader = headers a, RequestBody = buf\<rparr>"
    and "a1 = a\<lparr>client := (client a)\<lparr>calls := calls (client a) @ [Do req]\<rparr>\<rparr>"
  shows "CheckAccess lib request a =
     (case answer (client a) req of
        Inl err \<Rightarrow> (Inl (Error (ErrWrap err ''error in check access request execution'')), a1)
      | Inr resp \<Rightarrow>
          (case ResponseBody resp of
             Inl err \<Rightarrow> (Inl (Error (ErrWrap err ''error in reading response body'')), a1)
           | Inr data \<Rightarrow>
               if StatusCode resp \<noteq> 200 then
                 (Inl (Error (ErrStatus (URLPath (RequestURL req)) (StatusCode resp) data)),
                  if StatusCode resp = 429 then client_CloseIdleConnections a1 else a1)
               else
                 (let a2 = (if fst (Atoi (Header_Get (ResponseHeader resp) remaingSubReadARMHeader))
                               < armCallLimit a
                            then client_CloseIdleConnections a1 else a1)
                  in case ConvertCheckAccessResponse (json_Unmarshal lib) data of
                       Inr response \<Rightarrow>
                         (Inr response, SetResultInCache request (Allowed response) a2)
                     | Inl (Error err) \<Rightarrow> (Inl (Error err), SetResultInCache request False a2)
                     | Inl (Panic msg) \<Rightarrow> (Inl (Panic msg), a2))))"
  using assms by (simp add: CheckAccess_def client_Do_def Let_def
      split: sum.splits failure.splits)

lemma dataStore_close [simp]: "dataStore (client_CloseIdleConnections a) = dataStore a"
  by (simp add: client_CloseIdleConnections_def)

lemma dataStore_set [simp]:
  "dataStore (SetResultInCache request v a) = dataStore a @ [(getResultCacheKey request, v)]"
  by (simp add: SetResultInCache_def)

lemma test_prepare:
  "prepareCheckAccessRequestBody test_request
     (clusterType (test_AccessInfo test_provider status text))
     (azureResourceId (test_AccessInfo test_provider status text))
     (retrieveGroupMemberships (test_AccessInfo test_provider status text)) =
   Inr \<lparr>Subject = \<lparr>ObjectId = ''00000000-0000-0000-0000-000000000000'', SubjectGroups = [],
                     RetrieveGroupMemberships = True\<rparr>,
        Actions = [\<lparr>ActionId = ''Microsoft.Kubernetes/connectedClusters/pods/delete'',
                    IsDataAction = True\<rparr>],
        ResourceId = ''resourceId/namespaces/dev''\<rparr>"
proof -
  have "prepareCheckAccessRequestBody test_request connectedClusters ''resourceId'' True =
   Inr \<lparr>Subject = \<lparr>ObjectId = ''00000000-0000-0000-0000-000000000000'', SubjectGroups = [],
                     RetrieveGroupMemberships = True\<rparr>,
        Actions = [\<lparr>ActionId = ''Microsoft.Kubernetes/connectedClusters/pods/delete'',
                    IsDataAction = True\<rparr>],
        ResourceId = ''resourceId/namespaces/dev''\<rparr>"
    by code_simp
  then show ?thesis
    by (simp add: test_AccessInfo_def newAccessInfo_def)
qed

lemma test_encode:
  "json_Encode test_lib
     \<lparr>Subject = \<lparr>ObjectId = ''00000000-0000-0000-0000-000000000000'', SubjectGroups = [],
                     RetrieveGroupMemberships = True\<rparr>,
        Actions = [\<lparr>ActionId = ''Microsoft.Kubernetes/connectedClusters/pods/delete'',
                    IsDataAction = True\<rparr>],
        ResourceId = ''resourceId/namespaces/dev''\<rparr> =
   Inr ''00000000-0000-0000-0000-000000000000''"
  by (simp add: test_lib_def)

lemma test_new_request:
  "http_NewRequest test_lib (checkAccessURL (test_AccessInfo test_provider status text) test_request)
     = None"
  by (simp add: test_lib_def)

lemma test_answer:
  "answer (client (test_AccessInfo test_provider status text)) req =
     Inr \<lparr>StatusCode = status, ResponseHeader = Map.empty, ResponseBody = Inr text\<rparr>"
  by (simp add: test_AccessInfo_def newAccessInfo_def test_client_def)

lemma test_store_empty: "dataStore (test_AccessInfo test_provider status text) = []"
  by (simp add: test_AccessInfo_def newAccessInfo_def)

lemma test_key: "getResultCacheKey test_request = ''beta@bing.com/dev/pods/delete''"
  by code_simp

lemma test_Unmarshal_garbage: "test_Unmarshal ''<html>'' = Inl (ErrExternal ''invalid character'')"
  by code_simp

lemma test_url:
  "checkAccessURL (test_AccessInfo test_provider status text) test_request =
     \<lparr>Scheme = ''http'', Host = ''127.0.0.1'',
      URLPath = ''/arm/resourceId/namespaces/dev/providers/Microsoft.Authorization/checkaccess'',
      RawQuery = ''api-version=2018-09-01-preview''\<rparr>"
proof -
  have "checkAccessURL (test_AccessInfo test_provider 0 []) test_request =
     \<lparr>Scheme = ''http'', Host = ''127.0.0.1'',
      URLPath = ''/arm/resourceId/namespaces/dev/providers/Microsoft.Authorization/checkaccess'',
      RawQuery = ''api-version=2018-09-01-preview''\<rparr>"
    by code_simp
  moreover have "checkAccessURL (test_AccessInfo test_provider status text) test_request =
      checkAccessURL (test_AccessInfo test_provider 0 []) test_request"
    by (simp add: checkAccessURL_def test_AccessInfo_def newAccessInfo_def)
  ultimately show ?thesis by simp
qed

text \<open>
  Claim C1, as stated, fails: when the server answers the request of the test with
  status 500, the call has been made, \<open>CheckAccess\<close> returns the error of the status,
  and no entry has been written to the store.
\<close>

theorem CheckAccess_status_500_counterexample:
  "CheckAccess test_lib test_request (test_AccessInfo test_provider 500 ''error'') =
     (Inl (Error (ErrStatus
        ''/arm/resourceId/namespaces/dev/providers/Microsoft.Authorization/checkaccess''
        500 ''error'')),
      (test_AccessInfo test_provider 500 ''error'')
        \<lparr>client := (client (test_AccessInfo test_provider 500 ''error''))
           \<lparr>calls :=
              [Do \<lparr>Method = ''POST'',
                   RequestURL =
                     \<lparr>Scheme = ''http'', Host = ''127.0.0.1'',
                      URLPath = ''/arm/resourceId/namespaces/dev/providers/Microsoft.Authorization/checkaccess'',
                      RawQuery = ''api-version=2018-09-01-preview''\<rparr>,
                   RequestHeader = headers (test_AccessInfo test_provider 500 ''error''),
                   RequestBody = ''00000000-0000-0000-0000-000000000000''\<rparr>]\<rparr>\<rparr>)
   \<and> dataStore (snd (CheckAccess test_lib test_request
                        (test_AccessInfo test_provider 500 ''error''))) = []"
proof -
  have c: "calls (client (test_AccessInfo test_provider 500 ''error'')) = []"
    by (simp add: test_AccessInfo_def newAccessInfo_def test_client_def)
  show ?thesis
    by (simp add: CheckAccess_called[OF test_prepare test_encode test_new_request refl refl]
        test_answer test_url test_store_empty c)
qed

text \<open>
  Claim C1, amended. Take an invocation of \<open>CheckAccess\<close> that reaches the remote call.
  If the answer has status 200 and a readable body, \<open>Set\<close> is called on the store for
  the key of the request: with the resolved allowed outcome when the body decodes to at
  least one decision, with false, and the decoding error returned, when the body does
  not decode. If the status is not 200, the body cannot be read or the call itself fails,
  the error is returned and nothing is written to the store.
\<close>

theorem CheckAccess_cache_write:
  assumes prep: "prepareCheckAccessRequestBody request (clusterType a) (azureResourceId a)
             (retrieveGroupMemberships a) = Inr body"
    and enc: "json_Encode lib body = Inr buf"
    and new: "http_NewRequest lib (checkAccessURL a request) = None"
    and req: "req = \<lparr>Method = ''POST'', RequestURL = checkAccessURL a request,
                RequestHeader = headers a, RequestBody = buf\<rparr>"
  shows "(\<forall>resp data d ds.
            answer (client a) req = Inr resp \<and> ResponseBody resp = Inr data
            \<and> StatusCode resp = 200 \<and> json_Unmarshal lib data = Inr (d # ds) \<longrightarrow>
            (\<exists>st. fst (CheckAccess lib request a) = Inr st
                 \<and> Allowed st = (ToLower (Decision d) = ''allowed'')
                 \<and> dataStore (snd (CheckAccess lib request a)) =
                     dataStore a @ [(getResultCacheKey request, Allowed st)]))
       \<and> (\<forall>resp data err.
            answer (client a) req = Inr resp \<and> ResponseBody resp = Inr data
            \<and> StatusCode resp = 200 \<and> json_Unmarshal lib data = Inl err \<longrightarrow>
            fst (CheckAccess lib request a) =
              Inl (Error (ErrWrap err ''Error in unmarshalling check access response.''))
            \<and> dataStore (snd (CheckAccess lib request a)) =
                dataStore a @ [(getResultCacheKey request, False)])
       \<and> (\<forall>resp data.
            answer (client a) req = Inr resp \<and> ResponseBody resp = Inr data
            \<and> StatusCode resp \<noteq> 200 \<longrightarrow>
            fst (CheckAccess lib request a) =
              Inl (Error (ErrStatus (URLPath (checkAccessURL a request)) (StatusCode resp) data))
            \<and> dataStore (snd (CheckAccess lib request a)) = dataStore a)
       \<and> (\<forall>resp err.
            answer (client a) req = Inr resp \<and> ResponseBody resp = Inl err \<longrightarrow>
            fst (CheckAccess lib request a) =
              Inl (Error (ErrWrap err ''error in reading response body''))
            \<and> dataStore (snd (CheckAccess lib request a)) = dataStore a)
       \<and> (\<forall>err.
            answer (client a) req = Inl err \<longrightarrow>
            fst (CheckAccess lib request a) =
              Inl (Error (ErrWrap err ''error in check access request execution''))
            \<and> dataStore (snd (CheckAccess lib request a)) = dataStore a)"
proof -
  note ca = CheckAccess_called[OF prep enc new req refl]
  show ?thesis
  proof (intro conjI allI impI)
    fix resp data d ds
    assume h: "answer (client a) req = Inr resp \<and> ResponseBody resp = Inr data
            \<and> StatusCode resp = 200 \<and> json_Unmarshal lib data = Inr (d # ds)"
    then show "\<exists>st. fst (CheckAccess lib request a) = Inr st
                 \<and> Allowed st = (ToLower (Decision d) = ''allowed'')
                 \<and> dataStore (snd (CheckAccess lib request a)) =
                     dataStore a @ [(getResultCacheKey request, Allowed st)]"
      by (simp add: ca ConvertCheckAccessResponse_def Allowed_word_def Let_def)
  next
    fix resp data err
    assume h: "answer (client a) req = Inr resp \<and> ResponseBody resp = Inr data
            \<and> StatusCode resp = 200 \<and> json_Unmarshal lib data = Inl err"
    then show "fst (CheckAccess lib request a) =
              Inl (Error (ErrWrap err ''Error in unmarshalling check access response.''))"
      by (simp add: ca ConvertCheckAccessResponse_def Let_def)
    from h show "dataStore (snd (CheckAccess lib request a)) =
                dataStore a @ [(getResultCacheKey request, False)]"
      by (simp add: ca ConvertCheckAccessResponse_def Let_def)
  next
    fix resp data
    assume h: "answer (client a) req = Inr resp \<and> ResponseBody resp = Inr data
            \<and> StatusCode resp \<noteq> 200"
    then show "fst (CheckAccess lib request a) =
              Inl (Error (ErrStatus (URLPath (checkAccessURL a request)) (StatusCode resp) data))"
      by (simp add: ca req)
    from h show "dataStore (snd (CheckAccess lib request a)) = dataStore a"
      by (simp add: ca)
  next
    fix resp err
    assume h: "answer (client a) req = Inr resp \<and> ResponseBody resp = Inl err"
    then show "fst (CheckAccess lib request a) =
              Inl (Error (ErrWrap err ''error in reading response body''))"
      by (simp add: ca)
    from h show "dataStore (snd (CheckAccess lib request a)) = dataStore a"
      by (simp add: ca)
  next
    fix err
    assume h: "answer (client a) req = Inl err"
    then show "fst (CheckAccess lib request a) =
              Inl (Error (ErrWrap err ''error in check access request execution''))"
      by (simp add: ca)
    from h show "dataStore (snd (CheckAccess lib request a)) = dataStore a"
      by (simp add: ca)
  qed
qed

text \<open>
  The request of the test against a server answering 200 with the body of the test,
  200 with a body that does not decode, and 500.
\<close>

theorem CheckAccess_cache_write_witness:
  "(\<exists>st. fst (CheckAccess test_lib test_request (test_AccessInfo test_provider 200 validBody))
           = Inr st
         \<and> Allowed st
         \<and> dataStore (snd (CheckAccess test_lib test_request
                              (test_AccessInfo test_provider 200 validBody)))
             = [(''beta@bing.com/dev/pods/delete'', True)])
   \<and> fst (CheckAccess test_lib test_request (test_AccessInfo test_provider 200 ''<html>''))
       = Inl (Error (ErrWrap (ErrExternal ''invalid character'')
                ''Error in unmarshalling check access response.''))
   \<and> dataStore (snd (CheckAccess test_lib test_request
                        (test_AccessInfo test_provider 200 ''<html>'')))
       = [(''beta@bing.com/dev/pods/delete'', False)]
   \<and> dataStore (snd (CheckAccess test_lib test_request
                        (test_AccessInfo test_provider 500 ''error''))) = []"
proof -
  note allowed =
    CheckAccess_cache_write[OF test_prepare test_encode test_new_request refl,
      of 200 validBody, THEN conjunct1, rule_format,
      of "\<lparr>StatusCode = 200, ResponseHeader = Map.empty, ResponseBody = Inr validBody\<rparr>"
         validBody
         "\<lparr>Decision = ''Allowed'',
           DecisionActionId = ''Microsoft.Kubernetes/connectedClusters/pods/delete'',
           DecisionIsDataAction = True, TimeToLiveInMs = 300000\<rparr>" "[]"]
  note garbage =
    CheckAccess_cache_write[OF test_prepare test_encode test_new_request refl,
      of 200 "''<html>''", THEN conjunct2, THEN conjunct1, rule_format,
      of "\<lparr>StatusCode = 200, ResponseHeader = Map.empty, ResponseBody = Inr ''<html>''\<rparr>"
         "''<html>''" "ErrExternal ''invalid character''"]
  note refused =
    CheckAccess_cache_write[OF test_prepare test_encode test_new_request refl,
      of 500 "''error''", THEN conjunct2, THEN conjunct2, THEN conjunct1, rule_format,
      of "\<lparr>StatusCode = 500, ResponseHeader = Map.empty, ResponseBody = Inr ''error''\<rparr>"
         "''error''"]
  have u: "json_Unmarshal test_lib = test_Unmarshal" by (simp add: test_lib_def)
  have l: "ToLower ''Allowed'' = ''allowed''" by code_simp
  have 1: "\<exists>st. fst (CheckAccess test_lib test_request (test_AccessInfo test_provider 200 validBody))
           = Inr st
         \<and> Allowed st
         \<and> dataStore (snd (CheckAccess test_lib test_request
                              (test_AccessInfo test_provider 200 validBody)))
             = [(''beta@bing.com/dev/pods/delete'', True)]"
    using allowed by (auto simp: test_answer test_store_empty test_key u l test_Unmarshal_def)
  have 2: "fst (CheckAccess test_lib test_request (test_AccessInfo test_provider 200 ''<html>''))
       = Inl (Error (ErrWrap (ErrExternal ''invalid character'')
                ''Error in unmarshalling check access response.''))
   \<and> dataStore (snd (CheckAccess test_lib test_request
                        (test_AccessInfo test_provider 200 ''<html>'')))
       = [(''beta@bing.com/dev/pods/delete'', False)]"
    using garbage by (simp add: test_answer test_store_empty test_key u test_Unmarshal_garbage)
  have 3: "dataStore (snd (CheckAccess test_lib test_request
                        (test_AccessInfo test_provider 500 ''error''))) = []"
    using refused by (simp add: test_answer test_store_empty)
  from 1 2 3 show ?thesis by blast
qed

end
